theory Spec2Isabelle
  imports Complex_Main "HOL-Library.Sublist"
begin

section \<open>The enhanced detector (src/src/enhanced-detector.js)\<close>

text \<open>
  JavaScript numbers are modelled as exact reals: the IEEE-754 rounding error of each
  operation is not part of the model. A quotient whose divisor can be zero is a
  \<open>jsnum\<close>, with its infinities. Strings are lists of \<^typ>\<open>char\<close>, one character
  per UTF-16 code unit below 256.
\<close>

subsection \<open>Numbers\<close>

text \<open>\<^verbatim>\<open>Math.round(x)\<close>: the integer nearest to x, a tie going up.\<close>

definition Math_round :: "real \<Rightarrow> real" where
  "Math_round x = of_int \<lfloor>x + 1 / 2\<rfloor>"

text \<open>
  A division whose divisor can be zero yields an infinity or NaN in JavaScript. The
  values such a quotient flows through are of type \<open>jsnum\<close>, with the arithmetic the
  source applies to them.
\<close>

datatype jsnum = Finite real | PosInfinity | NegInfinity | NaN

definition js_div :: "real \<Rightarrow> real \<Rightarrow> jsnum" where
  "js_div a b =
     (if b \<noteq> 0 then Finite (a / b)
      else if a > 0 then PosInfinity
      else if a < 0 then NegInfinity
      else NaN)"

text \<open>\<open>k * x\<close> and \<open>x / k\<close> for a finite constant k, \<open>x + y\<close>, and \<open>Math.round(x)\<close>.\<close>

fun js_times :: "real \<Rightarrow> jsnum \<Rightarrow> jsnum" where
  "js_times k (Finite x) = Finite (k * x)"
| "js_times k PosInfinity = (if k > 0 then PosInfinity else if k < 0 then NegInfinity else NaN)"
| "js_times k NegInfinity = (if k > 0 then NegInfinity else if k < 0 then PosInfinity else NaN)"
| "js_times k NaN = NaN"

fun js_add :: "jsnum \<Rightarrow> jsnum \<Rightarrow> jsnum" where
  "js_add (Finite x) (Finite y) = Finite (x + y)"
| "js_add NaN y = NaN"
| "js_add x NaN = NaN"
| "js_add PosInfinity NegInfinity = NaN"
| "js_add NegInfinity PosInfinity = NaN"
| "js_add PosInfinity y = PosInfinity"
| "js_add x PosInfinity = PosInfinity"
| "js_add NegInfinity y = NegInfinity"
| "js_add x NegInfinity = NegInfinity"

fun js_over :: "jsnum \<Rightarrow> real \<Rightarrow> jsnum" where
  "js_over (Finite x) k = js_div x k"
| "js_over PosInfinity k = (if k \<ge> 0 then PosInfinity else NegInfinity)"
| "js_over NegInfinity k = (if k \<ge> 0 then NegInfinity else PosInfinity)"
| "js_over NaN k = NaN"

fun js_round :: "jsnum \<Rightarrow> jsnum" where
  "js_round (Finite x) = Finite (Math_round x)"
| "js_round x = x"

text \<open>\<open>x > k\<close>: false for NaN.\<close>

fun js_greater :: "jsnum \<Rightarrow> real \<Rightarrow> bool" where
  "js_greater (Finite x) k = (x > k)"
| "js_greater PosInfinity k = True"
| "js_greater x k = False"

subsection \<open>Characters and strings\<close>

text \<open>\<open>\s\<close> of a regular expression, which is also what \<open>trim\<close> strips.\<close>

definition isSpace :: "char \<Rightarrow> bool" where
  "isSpace c = (let n = (of_char c :: nat) in (9 \<le> n \<and> n \<le> 13) \<or> n = 32 \<or> n = 160)"

text \<open>\<open>\w\<close>: an ASCII letter, a digit or the underscore.\<close>

definition isWord :: "char \<Rightarrow> bool" where
  "isWord c = (let n = (of_char c :: nat) in
     (48 \<le> n \<and> n \<le> 57) \<or> (65 \<le> n \<and> n \<le> 90) \<or> n = 95 \<or> (97 \<le> n \<and> n \<le> 122))"

definition toLowerCase_char :: "char \<Rightarrow> char" where
  "toLowerCase_char c = (let n = (of_char c :: nat) in
     if (65 \<le> n \<and> n \<le> 90) \<or> (192 \<le> n \<and> n \<le> 222 \<and> n \<noteq> 215)
     then char_of (n + 32) else c)"

definition toLowerCase :: "string \<Rightarrow> string" where
  "toLowerCase s = map toLowerCase_char s"

text \<open>
  How a pattern letter of a regular expression with the \<open>i\<close> flag meets a character:
  both are upper-cased. The patterns of this file are ASCII letters, which only an
  ASCII letter is upper-cased to.
\<close>

definition canonicalize :: "char \<Rightarrow> char" where
  "canonicalize c = (let n = (of_char c :: nat) in
     if 97 \<le> n \<and> n \<le> 122 then char_of (n - 32) else c)"

definition trim :: "string \<Rightarrow> string" where
  "trim s = rev (dropWhile isSpace (rev (dropWhile isSpace s)))"

definition endsWith :: "string \<Rightarrow> string \<Rightarrow> bool" where
  "endsWith s suf = (length suf \<le> length s \<and> drop (length s - length suf) s = suf)"

text \<open>\<open>s.split(' ')\<close>: the pieces between the spaces, empty pieces included.\<close>

fun split_space :: "string \<Rightarrow> string list" where
  "split_space [] = [[]]"
| "split_space (c # cs) =
     (if c = CHR '' '' then [] # split_space cs
      else (case split_space cs of
              [] \<Rightarrow> [[c]]
            | w # ws \<Rightarrow> (c # w) # ws))"

subsection \<open>Regular expressions\<close>

text \<open>
  The patterns of the source are sequences of these items: one character of a class,
  an optional one, a greedy run \<open>[...]+\<close>, a choice between literals, and the word
  boundary \<open>\b\<close>. \<open>matchSeq r prev s\<close> is the backtracking matcher anchored at the
  start of \<open>s\<close>, where \<open>prev\<close> is the character before it: it returns the length of
  the match the engine finds first. A run takes all it can and gives characters back,
  one at a time, while the rest of the pattern fails; a choice tries its literals in
  the order written.
\<close>

datatype item =
    One "char \<Rightarrow> bool"
  | Opt "char \<Rightarrow> bool"
  | Many1 "char \<Rightarrow> bool"
  | Alt "(char \<Rightarrow> bool) list list"
  | WordB

type_synonym matcher = "char option \<Rightarrow> string \<Rightarrow> nat option"

primrec greedy :: "matcher \<Rightarrow> string \<Rightarrow> nat \<Rightarrow> nat option" where
  "greedy k s 0 = None"
| "greedy k s (Suc n) =
     (case k (Some (s ! n)) (drop (Suc n) s) of
        Some m \<Rightarrow> Some (Suc n + m)
      | None \<Rightarrow> greedy k s n)"

fun litMatch :: "(char \<Rightarrow> bool) list \<Rightarrow> string \<Rightarrow> bool" where
  "litMatch [] s = True"
| "litMatch (p # ps) [] = False"
| "litMatch (p # ps) (c # cs) = (p c \<and> litMatch ps cs)"

primrec firstAlt ::
  "matcher \<Rightarrow> char option \<Rightarrow> string \<Rightarrow> (char \<Rightarrow> bool) list list \<Rightarrow> nat option" where
  "firstAlt k prev s [] = None"
| "firstAlt k prev s (a # as) =
     (case (if litMatch a s
            then map_option (\<lambda>m. length a + m)
                   (k (if a = [] then prev else Some (s ! (length a - 1)))
                      (drop (length a) s))
            else None) of
        Some n \<Rightarrow> Some n
      | None \<Rightarrow> firstAlt k prev s as)"

definition wordBoundary :: "char option \<Rightarrow> string \<Rightarrow> bool" where
  "wordBoundary prev s =
     ((case prev of None \<Rightarrow> False | Some c \<Rightarrow> isWord c) \<noteq>
      (case s of [] \<Rightarrow> False | c # _ \<Rightarrow> isWord c))"

primrec matchSeq :: "item list \<Rightarrow> matcher" where
  "matchSeq [] = (\<lambda>prev s. Some 0)"
| "matchSeq (i # r) = (\<lambda>prev s.
     case i of
       One p \<Rightarrow>
         (case s of
            [] \<Rightarrow> None
          | c # cs \<Rightarrow> if p c then map_option Suc (matchSeq r (Some c) cs) else None)
     | Opt p \<Rightarrow>
         (case (case s of
                  [] \<Rightarrow> None
                | c # cs \<Rightarrow> if p c then map_option Suc (matchSeq r (Some c) cs) else None) of
            Some n \<Rightarrow> Some n
          | None \<Rightarrow> matchSeq r prev s)
     | Many1 p \<Rightarrow> greedy (matchSeq r) s (length (takeWhile p s))
     | Alt as \<Rightarrow> firstAlt (matchSeq r) prev s as
     | WordB \<Rightarrow> if wordBoundary prev s then matchSeq r prev s else None)"

text \<open>
  \<open>s.replace(/r/g, rep)\<close> and \<open>(s.match(/r/g) || []).length\<close>: the matches are
  looked for from left to right, each search starting where the last match ended. No
  pattern of this file matches the empty string, so a match has a length of at least
  one.
\<close>

function replaceAll :: "item list \<Rightarrow> string \<Rightarrow> char option \<Rightarrow> string \<Rightarrow> string" where
  "replaceAll r rep prev [] = []"
| "replaceAll r rep prev (c # cs) =
     (case matchSeq r prev (c # cs) of
        Some (Suc n) \<Rightarrow> rep @ replaceAll r rep (Some ((c # cs) ! n)) (drop n cs)
      | _ \<Rightarrow> c # replaceAll r rep (Some c) cs)"
  by pat_completeness auto
termination
  by (relation "measure (\<lambda>(r, rep, prev, s). length s)") auto

function countMatches :: "item list \<Rightarrow> char option \<Rightarrow> string \<Rightarrow> nat" where
  "countMatches r prev [] = 0"
| "countMatches r prev (c # cs) =
     (case matchSeq r prev (c # cs) of
        Some (Suc n) \<Rightarrow> Suc (countMatches r (Some ((c # cs) ! n)) (drop n cs))
      | _ \<Rightarrow> countMatches r (Some c) cs)"
  by pat_completeness auto
termination
  by (relation "measure (\<lambda>(r, prev, s). length s)") auto

definition lit :: "string \<Rightarrow> item list" where
  "lit s = map (\<lambda>c. One (\<lambda>d. d = c)) s"

text \<open>\<^verbatim>\<open>/\s+/g\<close>\<close>

definition rx_whitespace :: "item list" where
  "rx_whitespace = [Many1 isSpace]"

text \<open>\<^verbatim>\<open>/https?:\/\/\S+/g\<close>\<close>

definition rx_url :: "item list" where
  "rx_url = lit ''http'' @ [Opt (\<lambda>c. c = CHR ''s'')] @ lit ''://'' @
            [Many1 (\<lambda>c. \<not> isSpace c)]"

text \<open>\<^verbatim>\<open>/[\w.-]+@[\w.-]+\.\w+/g\<close>\<close>

definition isMailChar :: "char \<Rightarrow> bool" where
  "isMailChar c = (isWord c \<or> c = CHR ''.'' \<or> c = CHR ''-'')"

definition rx_email :: "item list" where
  "rx_email = [Many1 isMailChar, One (\<lambda>c. c = CHR ''@''), Many1 isMailChar,
               One (\<lambda>c. c = CHR ''.''), Many1 isWord]"

text \<open>\<^verbatim>\<open>/[^\w\s.,!?;:'"()\-]/g\<close>: \<open>allowed\<close> is the class that is negated.\<close>

definition allowed :: "char \<Rightarrow> bool" where
  "allowed c = (isWord c \<or> isSpace c \<or> c \<in> set ''.,!?;:()-'' \<or>
                c = CHR 0x27 \<or> c = CHR 0x22)"

definition rx_special :: "item list" where
  "rx_special = [One (\<lambda>c. \<not> allowed c)]"

text \<open>\<^verbatim>\<open>/[.!?]+/g\<close>\<close>

definition rx_sentence :: "item list" where
  "rx_sentence = [Many1 (\<lambda>c. c \<in> set ''.!?'')]"

text \<open>\<^verbatim>\<open>/\b(I|me|my|mine|myself|we|us|our|ours|ourselves)\b/gi\<close>\<close>

definition rx_pronoun :: "item list" where
  "rx_pronoun =
     [WordB,
      Alt (map (map (\<lambda>c d. canonicalize d = canonicalize c))
             [''I'', ''me'', ''my'', ''mine'', ''myself'', ''we'', ''us'', ''our'', ''ours'',
              ''ourselves'']),
      WordB]"

text \<open>\<^verbatim>\<open>/[aeiouy]+/g\<close>\<close>

definition rx_vowels :: "item list" where
  "rx_vowels = [Many1 (\<lambda>c. c \<in> set ''aeiouy'')]"

subsection \<open>preprocessText\<close>

definition preprocessText :: "string \<Rightarrow> string" where
  "preprocessText text =
     (if text = [] then []
      else let processed = trim (replaceAll rx_whitespace '' '' None text);
               processed = replaceAll rx_url [] None processed;
               processed = replaceAll rx_email [] None processed;
               processed = replaceAll rx_special [] None processed
           in processed)"

subsection \<open>calculateEnhancedTextStats\<close>

record TextStats =
  words :: nat
  sentences :: nat
  avgWordsPerSentence :: real
  longWords :: nat
  personalPronouns :: nat
  readabilityScore :: jsnum
  lexicalDiversity :: real

text \<open>The body of the loop of \<open>countSyllables\<close>, for one word.\<close>

definition syllableStep :: "string \<Rightarrow> int \<Rightarrow> int" where
  "syllableStep word count =
     (let vowelGroups = countMatches rx_vowels None word;
          count = count + int vowelGroups;
          count = (if endsWith word ''e'' \<and> \<not> endsWith word ''le'' then count - 1 else count);
          count = (if endsWith word ''es'' \<or> endsWith word ''ed'' then count - 1 else count)
      in count)"

definition countSyllables :: "string \<Rightarrow> int" where
  "countSyllables text = max 1 (fold syllableStep (split_space (toLowerCase text)) 0)"

definition calculateEnhancedTextStats :: "string \<Rightarrow> TextStats" where
  "calculateEnhancedTextStats text =
     (if text = [] then
        \<lparr>words = 0, sentences = 0, avgWordsPerSentence = 0, longWords = 0,
         personalPronouns = 0, readabilityScore = Finite 0, lexicalDiversity = 0\<rparr>
      else
        let words = length (filter (\<lambda>word. length word > 0) (split_space text));
            sentences = max 1 (countMatches rx_sentence None text);
            avgWordsPerSentence = real words / real sentences;
            longWords = length (filter (\<lambda>word. length word > 6) (split_space text));
            personalPronouns = countMatches rx_pronoun None text;
            syllables = countSyllables text;
            readabilityScore =
              js_add
                (js_add (Finite (0.39 * (real words / real sentences)))
                   (js_times 11.8 (js_div (real_of_int syllables) (real words))))
                (Finite (- 15.59));
            uniqueWords = card (set (split_space (toLowerCase text)));
            lexicalDiversity = (if words > 0 then real uniqueWords / real words else 0)
        in \<lparr>words = words,
            sentences = sentences,
            avgWordsPerSentence = avgWordsPerSentence,
            longWords = longWords,
            personalPronouns = personalPronouns,
            readabilityScore = js_over (js_round (js_times 10 readabilityScore)) 10,
            lexicalDiversity = Math_round (lexicalDiversity * 100) / 100\<rparr>)"

subsection \<open>Remote scores\<close>

text \<open>
  The fields every result carries, then the object both remote scorers return and the
  combiner builds.
\<close>

record Score =
  aiProbability :: real
  confidence :: real

record RemoteScore = Score +
  factors :: "string list"
  likelySource :: string
  reasoning :: string
  model :: string

text \<open>
  The client of the remote service. A call either fails with a message or returns:
  the embedding vector of the input, or the object that \<open>JSON.parse\<close> reads from
  the completion of a prompt.
\<close>

record OpenAI =
  embeddings_create :: "string \<Rightarrow> string + real list"
  chat_completions_create :: "string \<Rightarrow> string + RemoteScore"

subsection \<open>cosineSimilarity and performEmbeddingAnalysis\<close>

definition cosineSimilarity :: "real list \<Rightarrow> real list \<Rightarrow> real" where
  "cosineSimilarity vec1 vec2 =
     (if length vec1 \<noteq> length vec2 then 0
      else
        let (dotProduct, norm1, norm2) =
              fold (\<lambda>(a, b) (dotProduct, norm1, norm2).
                      (dotProduct + a * b, norm1 + a * a, norm2 + b * b))
                (zip vec1 vec2) (0, 0, 0);
            norm1 = sqrt norm1;
            norm2 = sqrt norm2
        in if norm1 = 0 \<or> norm2 = 0 then 0 else dotProduct / (norm1 * norm2))"

text \<open>
  A template literal converts a number to a string; that built-in conversion is the
  parameter \<open>numberToString\<close> of the functions that build such a string.
\<close>

definition performEmbeddingAnalysis ::
  "(real \<Rightarrow> string) \<Rightarrow> string \<Rightarrow> OpenAI \<Rightarrow> string + RemoteScore" where
  "performEmbeddingAnalysis numberToString text openai =
     (case embeddings_create openai text of
        Inl message \<Rightarrow> Inl (''Failed to perform embedding analysis: '' @ message)
      | Inr textEmbedding \<Rightarrow>
          let aiPatterns = [replicate 1536 (0.1 :: real)];
              humanPatterns = [replicate 1536 (0.2 :: real)];
              aiSimilarity = cosineSimilarity textEmbedding (aiPatterns ! 0);
              humanSimilarity = cosineSimilarity textEmbedding (humanPatterns ! 0);
              totalSimilarity = aiSimilarity + humanSimilarity;
              aiProbability =
                (if totalSimilarity > 0
                 then Math_round ((aiSimilarity / totalSimilarity) * 100) else 50)
          in Inr \<lparr>aiProbability = aiProbability,
                  confidence = 70,
                  factors = [''Embedding similarity analysis''],
                  likelySource = (if aiProbability > 60 then ''ai'' else ''human''),
                  reasoning = ''Based on embedding similarity, this text has a '' @
                    numberToString aiProbability @
                    ''% probability of being AI-generated.'',
                  model = ''text-embedding-ada-002''\<rparr>)"

subsection \<open>performCompletionAnalysis\<close>

definition dq :: char where
  "dq = CHR 0x22"

definition nl :: char where
  "nl = CHR 0x0A"

primrec joinLines :: "string list \<Rightarrow> string" where
  "joinLines [] = []"
| "joinLines (l # ls) = (if ls = [] then l else l @ nl # joinLines ls)"

definition promptHead :: "string list" where
  "promptHead =
     ['''',
      ''You are an AI text analysis expert specializing in detecting AI-genera''
        @ ''ted content. Your task is to evaluate whether the following text was w''
        @ ''ritten by a human or generated by AI.'',
      '''',
      ''Here are examples to guide your analysis:'',
      '''',
      ''EXAMPLE 1 (Human-written):'',
      [dq]
        @ ''I went to the store yesterday and bought some milk. It was pretty expe''
        @ ''nsive, but I needed it for my cereal. I also picked up some bread and ''
        @ ''eggs. The cashier was really friendly and helped me bag my groceries.''
        @ [dq],
      '''',
      ''EXAMPLE 2 (AI-generated):'',
      [dq]
        @ ''The implementation of artificial intelligence systems has revolutioniz''
        @ ''ed numerous industries, from healthcare to transportation. These advan''
        @ ''ced algorithms can process vast amounts of data with remarkable effici''
        @ ''ency, enabling more informed decision-making processes. Furthermore, m''
        @ ''achine learning models continue to evolve, demonstrating increasingly ''
        @ ''sophisticated capabilities in natural language processing and computer''
        @ '' vision applications.''
        @ [dq],
      '''',
      ''Now, analyze the following text:'',
      '''']"

definition promptTail :: "string list" where
  "promptTail =
     ['''',
      ''Consider these factors:'',
      ''1. Natural language patterns (filler words, hesitations, informal phra''
        @ ''sing)'',
      ''2. Consistency and formality of tone'',
      ''3. Sentence structure variety vs. repetitive patterns'',
      ''4. Personal pronouns and references to personal experiences'',
      ''5. Human-like inconsistencies or errors'',
      ''6. Contextual coherence and fluency'',
      ''7. Vocabulary diversity and complexity'',
      ''8. Emotional authenticity and personal voice'',
      '''',
      ''Provide your assessment in the following JSON format:'',
      '''',
      ''{'',
      [dq]
        @ ''aiProbability''
        @ [dq]
        @ '': number,       // Likelihood (0-100) that the content was generated b''
        @ ''y AI'',
      [dq]
        @ ''confidence''
        @ [dq]
        @ '': number,          // Confidence level (0-100) in your assessment'',
      [dq]
        @ ''factors''
        @ [dq]
        @ '': string[],           // Key reasons influencing your assessment'',
      [dq]
        @ ''likelySource''
        @ [dq]
        @ '': ''
        @ [dq]
        @ ''human''
        @ [dq]
        @ '' | ''
        @ [dq]
        @ ''ai''
        @ [dq]
        @ '',// Most probable source of the content'',
      [dq]
        @ ''reasoning''
        @ [dq]
        @ '': string            // Summary explanation of your assessment'',
      ''}'']"

definition completionPrompt :: "string \<Rightarrow> string" where
  "completionPrompt text = joinLines (promptHead @ [dq # text @ [dq]] @ promptTail)"

definition performCompletionAnalysis :: "string \<Rightarrow> OpenAI \<Rightarrow> string + RemoteScore" where
  "performCompletionAnalysis text openai =
     (case chat_completions_create openai (completionPrompt text) of
        Inl message \<Rightarrow> Inl (''Failed to perform completion analysis: '' @ message)
      | Inr analysisResult \<Rightarrow> Inr (analysisResult\<lparr>model := ''gpt-4o''\<rparr>))"

subsection \<open>combineAnalysisResults\<close>

definition combineAnalysisResults ::
  "(real \<Rightarrow> string) \<Rightarrow> RemoteScore \<Rightarrow> RemoteScore \<Rightarrow> RemoteScore" where
  "combineAnalysisResults numberToString embeddingResult completionResult =
     (let embeddingWeight = 0.3;
          completionWeight = 0.7;
          weightedAiProbability = Math_round
            (aiProbability embeddingResult * embeddingWeight +
             aiProbability completionResult * completionWeight);
          weightedConfidence = Math_round
            (confidence embeddingResult * embeddingWeight +
             confidence completionResult * completionWeight);
          combinedFactors = factors embeddingResult @ factors completionResult;
          likelySource = (if weightedAiProbability > 60 then ''ai'' else ''human'');
          combinedReasoning = ''Combined analysis: '' @ reasoning completionResult @
            '' Additionally, embedding similarity analysis suggests a '' @
            numberToString (aiProbability embeddingResult) @
            ''% probability of AI generation.''
      in \<lparr>aiProbability = weightedAiProbability,
          confidence = weightedConfidence,
          factors = combinedFactors,
          likelySource = likelySource,
          reasoning = combinedReasoning,
          model = ''hybrid-approach''\<rparr>)"

subsection \<open>calculateValidationScore and getEnhancedInterpretation\<close>

definition calculateValidationScore :: "RemoteScore \<Rightarrow> TextStats \<Rightarrow> real" where
  "calculateValidationScore analysisResult textStats =
     (let score = 0;
          score = score + confidence analysisResult * 0.4;
          lengthScore = min 100 (real (words textStats) * 2);
          score = score + lengthScore * 0.2;
          diversityScore = lexicalDiversity textStats * 100;
          score = score + diversityScore * 0.2;
          pronounScore = min 100 (real (personalPronouns textStats) * 20);
          score = score + pronounScore * 0.2
      in Math_round score)"

text \<open>The sentences an interpretation is put together from.\<close>

definition shortSampleCaveat :: string where
  "shortSampleCaveat =
     ''This sample is very short, which typically affects certainty, but our analysis suggests: ''"

definition comprehensivePrefix :: string where
  "comprehensivePrefix = ''Based on our comprehensive analysis: ''"

definition humanSummary :: string where
  "humanSummary = ''This text is likely human-written with natural speech patterns.''"

definition mixedSummary :: string where
  "mixedSummary =
     ''This text has mixed indicators that could suggest either human or AI authorship.''"

definition aiSummary :: string where
  "aiSummary = ''This text shows patterns consistent with AI-generated content.''"

definition lowDiversityNote :: string where
  "lowDiversityNote =
     '' The low lexical diversity (repetitive vocabulary) is a common indicator of AI-generated text.''"

definition noPronounsNote :: string where
  "noPronounsNote = '' The absence of personal pronouns is unusual for human writing.''"

definition highReadabilityNote :: string where
  "highReadabilityNote =
     '' The high readability score suggests formal, well-structured writing typical of AI.''"

definition getEnhancedInterpretation :: "RemoteScore \<Rightarrow> TextStats \<Rightarrow> string" where
  "getEnhancedInterpretation analysisResult textStats =
     (let lengthQualifier =
            (if words textStats < 15 then shortSampleCaveat else comprehensivePrefix);
          interpretation = lengthQualifier;
          interpretation =
            (if aiProbability analysisResult < 30 then interpretation @ humanSummary
             else if aiProbability analysisResult < 60 then interpretation @ mixedSummary
             else interpretation @ aiSummary);
          interpretation =
            (if lexicalDiversity textStats < 0.5 \<and> words textStats > 50
             then interpretation @ lowDiversityNote
             else interpretation);
          interpretation =
            (if personalPronouns textStats = 0 \<and> words textStats > 30
             then interpretation @ noPronounsNote
             else interpretation);
          interpretation =
            (if js_greater (readabilityScore textStats) 12
             then interpretation @ highReadabilityNote
             else interpretation)
      in interpretation)"

subsection \<open>analyzeTextWithEnhancedOpenAI\<close>

record ApiDetails =
  apiModel :: string
  confidenceFactors :: "string list"
  apiReasoning :: string

record Interpreted = Score +
  interpretationText :: string

record AnalysisResult = Interpreted +
  textStats :: TextStats
  apiDetails :: ApiDetails
  sourceModel :: string
  validationScore :: real

text \<open>
  \<open>newOpenAI\<close> is the constructor of the client, from the key. The check of the
  arguments throws before the \<open>try\<close>, so its message is not wrapped; an embedding
  that fails ends the analysis before the completion is asked for.
\<close>

definition analyzeTextWithEnhancedOpenAI ::
  "(real \<Rightarrow> string) \<Rightarrow> (string \<Rightarrow> OpenAI) \<Rightarrow> string \<Rightarrow> string \<Rightarrow> string + AnalysisResult" where
  "analyzeTextWithEnhancedOpenAI numberToString newOpenAI text apiKey =
     (if text = [] \<or> apiKey = [] then Inl ''Text and API key are required''
      else
        let openai = newOpenAI apiKey;
            processedText = preprocessText text;
            textStats = calculateEnhancedTextStats processedText;
            analysis =
              (if words textStats < 100 then performCompletionAnalysis processedText openai
               else
                 (case performEmbeddingAnalysis numberToString processedText openai of
                    Inl message \<Rightarrow> Inl message
                  | Inr embeddingResult \<Rightarrow>
                      (case performCompletionAnalysis processedText openai of
                         Inl message \<Rightarrow> Inl message
                       | Inr completionResult \<Rightarrow>
                           Inr (combineAnalysisResults numberToString embeddingResult
                                  completionResult))))
        in case analysis of
             Inl message \<Rightarrow> Inl (''Failed to analyze text: '' @ message)
           | Inr analysisResult \<Rightarrow>
               let validationScore = calculateValidationScore analysisResult textStats
               in Inr \<lparr>aiProbability = aiProbability analysisResult,
                       confidence = confidence analysisResult,
                       interpretationText = getEnhancedInterpretation analysisResult textStats,
                       textStats = textStats,
                       apiDetails =
                         \<lparr>apiModel = model analysisResult,
                          confidenceFactors = factors analysisResult,
                          apiReasoning = reasoning analysisResult\<rparr>,
                       sourceModel = ''enhanced-openai'',
                       validationScore = validationScore\<rparr>)"

subsection \<open>analyzeBatchWithEnhancedOpenAI\<close>

text \<open>
  An entry of the result: the analysis of a text with the text added to it, or the
  record that stands for a failed analysis.
\<close>

record FailedItem = Interpreted +
  failedText :: string
  error :: string

datatype BatchItem = Analysed string AnalysisResult | Failed FailedItem


text \<open>What the promise of one text of a group resolves to; \<open>None\<close> is \<open>null\<close>.\<close>

definition batchPromise ::
  "(real \<Rightarrow> string) \<Rightarrow> (string \<Rightarrow> OpenAI) \<Rightarrow> string \<Rightarrow> string \<Rightarrow> BatchItem option" where
  "batchPromise numberToString newOpenAI apiKey text =
     (if trim text \<noteq> [] then
        (case analyzeTextWithEnhancedOpenAI numberToString newOpenAI text apiKey of
           Inr analysis \<Rightarrow> Some (Analysed text analysis)
         | Inl message \<Rightarrow>
             Some (Failed \<lparr>aiProbability = 50, confidence = 10,
                           interpretationText = ''Analysis failed'',
                           failedText = text, error = message\<rparr>))
      else None)"

text \<open>
  The loop over the groups, with its counter \<open>i\<close> and the results so far.
  \<open>Promise.all\<close> gives the outcomes in the order of the group, whichever promise
  settles first; the pause between two groups changes no value.
\<close>

function batchLoop ::
  "(string \<Rightarrow> BatchItem option) \<Rightarrow> string list \<Rightarrow> nat \<Rightarrow> BatchItem list \<Rightarrow> BatchItem list" where
  "batchLoop promise texts i results =
     (if i < length texts then
        let batchSize = 3;
            batch = take batchSize (drop i texts);
            batchResults = map promise batch;
            results = results @ map the (filter (\<lambda>result. result \<noteq> None) batchResults)
        in batchLoop promise texts (i + batchSize) results
      else results)"
  by pat_completeness auto
termination
  by (relation "measure (\<lambda>(promise, texts, i, results). length texts - i)") auto

declare batchLoop.simps [simp del]

definition analyzeBatchWithEnhancedOpenAI ::
  "(real \<Rightarrow> string) \<Rightarrow> (string \<Rightarrow> OpenAI) \<Rightarrow> string list \<Rightarrow> string \<Rightarrow> BatchItem list" where
  "analyzeBatchWithEnhancedOpenAI numberToString newOpenAI texts apiKey =
     batchLoop (batchPromise numberToString newOpenAI apiKey) texts 0 []"

text \<open>The groups the loop takes from \<open>texts\<close>, from position \<open>i\<close> on.\<close>

function batchGroups :: "string list \<Rightarrow> nat \<Rightarrow> string list list" where
  "batchGroups texts i =
     (if i < length texts then take 3 (drop i texts) # batchGroups texts (i + 3) else [])"
  by pat_completeness auto
termination
  by (relation "measure (\<lambda>(texts, i). length texts - i)") auto

declare batchGroups.simps [simp del]


section \<open>Properties\<close>

text \<open>The definitions a concrete text is evaluated with.\<close>

lemmas rx_defs = rx_whitespace_def rx_url_def rx_email_def rx_special_def rx_sentence_def
  rx_pronoun_def rx_vowels_def lit_def

lemmas char_defs = isSpace_def isWord_def isMailChar_def allowed_def canonicalize_def
  toLowerCase_def toLowerCase_char_def wordBoundary_def

subsection \<open>Rounding\<close>

lemma Math_round_mono: "x \<le> y \<Longrightarrow> Math_round x \<le> Math_round y"
  unfolding Math_round_def by (simp add: floor_mono)

lemma Math_round_of_int: "Math_round (of_int k) = of_int k"
  unfolding Math_round_def by (simp add: floor_eq_iff)

lemma Math_round_between:
  assumes "of_int lo \<le> x" and "x \<le> of_int hi"
  shows "of_int lo \<le> Math_round x \<and> Math_round x \<le> of_int hi"
  using Math_round_mono [OF assms(1)] Math_round_mono [OF assms(2)]
  by (simp add: Math_round_of_int)



lemma weighted_round_percent:
  fixes e c :: real
  assumes "0 \<le> e" "e \<le> 100" "0 \<le> c" "c \<le> 100"
  shows "0 \<le> Math_round (e * 0.3 + c * 0.7) \<and> Math_round (e * 0.3 + c * 0.7) \<le> 100"
proof -
  have "of_int 0 \<le> e * 0.3 + c * 0.7" "e * 0.3 + c * 0.7 \<le> of_int 100"
    using assms by simp_all
  from Math_round_between [OF this] show ?thesis by simp
qed


subsection \<open>The preprocessor\<close>

















subsection \<open>The text statistics\<close>

lemma Math_round_0: "Math_round 0 = 0"
  by (simp add: Math_round_def)

text \<open>A text without a non-empty piece between its spaces consists of spaces.\<close>

lemma no_words_spaces:
  "filter (\<lambda>word. length word > 0) (split_space s) = [] \<Longrightarrow> set s \<subseteq> {CHR '' ''}"
proof (induction s)
  case Nil
  then show ?case by simp
next
  case (Cons c cs)
  then show ?case
    by (cases "c = CHR '' ''"; cases "split_space cs") (simp_all split: if_splits)
qed

lemma no_words_no_longWords:
  "filter (\<lambda>word. length word > 0) ws = [] \<Longrightarrow> filter (\<lambda>word. length word > 6) ws = []"
  by (induction ws) (simp_all split: if_splits)

lemma countMatches_sentence_spaces:
  "set s \<subseteq> {CHR '' ''} \<Longrightarrow> countMatches rx_sentence prev s = 0"
  by (induction s arbitrary: prev) (simp_all add: rx_sentence_def)

lemma countMatches_pronoun_spaces:
  "set s \<subseteq> {CHR '' ''} \<Longrightarrow> (case prev of None \<Rightarrow> True | Some c \<Rightarrow> \<not> isWord c) \<Longrightarrow>
   countMatches rx_pronoun prev s = 0"
proof (induction s arbitrary: prev)
  case Nil
  then show ?case by simp
next
  case (Cons c cs)
  then have c: "c = CHR '' ''" by simp
  have "\<not> wordBoundary prev (c # cs)"
    using Cons.prems(2) by (simp add: wordBoundary_def c isWord_def split: option.splits)
  then have "matchSeq rx_pronoun prev (c # cs) = None"
    by (simp add: rx_pronoun_def)
  moreover have "countMatches rx_pronoun (Some c) cs = 0"
    using Cons by (simp add: c isWord_def)
  ultimately show ?case by simp
qed

text \<open>From the first character on, a non-empty text counts as at least one sentence.\<close>

lemma sentences_ge_1: "text \<noteq> [] \<Longrightarrow> 1 \<le> sentences (calculateEnhancedTextStats text)"
  by (simp add: calculateEnhancedTextStats_def Let_def)

text \<open>
  C2 (where the code departs from it). The distinct words are counted over all the
  pieces between the spaces, the empty piece included, the words over the non-empty
  ones only: for the text " a", which is also what \<open>preprocessText\<close> makes of
  "http://x.y a", one word and two distinct pieces give a lexical diversity of 2.
\<close>

theorem lexicalDiversity_above_one:
  "lexicalDiversity (calculateEnhancedTextStats '' a'') = 2
   \<and> words (calculateEnhancedTextStats '' a'') = 1
   \<and> preprocessText ''http://x.y a'' = '' a''"
  by (simp add: calculateEnhancedTextStats_def Let_def Math_round_def
      preprocessText_def trim_def rx_defs char_defs)

text \<open>
  C3 as stated fails: a text of one space has no word, yet it counts one sentence, and
  its readability score is the quotient of one syllable by zero words.
\<close>

theorem stats_one_space:
  "words (calculateEnhancedTextStats '' '') = 0
   \<and> sentences (calculateEnhancedTextStats '' '') = 1
   \<and> readabilityScore (calculateEnhancedTextStats '' '') = PosInfinity"
  by (simp add: calculateEnhancedTextStats_def Let_def rx_defs char_defs
      countSyllables_def syllableStep_def endsWith_def js_div_def)

text \<open>
  C3 (as the code has it). The record of all zeros is returned for the empty text
  only. For a text that has no word, the fields words, avgWordsPerSentence, longWords,
  personalPronouns and lexicalDiversity are 0; sentences is 0 for the empty text and 1
  for any other, so the average is never a quotient by zero.
\<close>

theorem stats_without_words:
  assumes "length (filter (\<lambda>word. length word > 0) (split_space text)) = 0"
  shows "words (calculateEnhancedTextStats text) = 0
     \<and> avgWordsPerSentence (calculateEnhancedTextStats text) = 0
     \<and> longWords (calculateEnhancedTextStats text) = 0
     \<and> personalPronouns (calculateEnhancedTextStats text) = 0
     \<and> lexicalDiversity (calculateEnhancedTextStats text) = 0
     \<and> sentences (calculateEnhancedTextStats text) = (if text = [] then 0 else 1)
     \<and> (text = [] \<longrightarrow> readabilityScore (calculateEnhancedTextStats text) = Finite 0)"
proof (cases "text = []")
  case True
  then show ?thesis by (simp add: calculateEnhancedTextStats_def)
next
  case False
  from assms have none: "filter (\<lambda>word. length word > 0) (split_space text) = []"
    by simp
  have spaces: "set text \<subseteq> {CHR '' ''}"
    using none by (rule no_words_spaces)
  have s: "countMatches rx_sentence None text = 0"
    using spaces by (rule countMatches_sentence_spaces)
  have p: "countMatches rx_pronoun None text = 0"
    using spaces by (rule countMatches_pronoun_spaces) simp
  have l: "filter (\<lambda>word. length word > 6) (split_space text) = []"
    using none by (rule no_words_no_longWords)
  from none have none': "filter (\<lambda>word. word \<noteq> []) (split_space text) = []"
    by simp
  show ?thesis
    using False by (simp add: calculateEnhancedTextStats_def Let_def none' s p l Math_round_0)
qed

theorem stats_without_words_witness:
  "words (calculateEnhancedTextStats ''   '') = 0
   \<and> avgWordsPerSentence (calculateEnhancedTextStats ''   '') = 0
   \<and> longWords (calculateEnhancedTextStats ''   '') = 0
   \<and> personalPronouns (calculateEnhancedTextStats ''   '') = 0
   \<and> lexicalDiversity (calculateEnhancedTextStats ''   '') = 0
   \<and> sentences (calculateEnhancedTextStats ''   '') = 1
   \<and> sentences (calculateEnhancedTextStats []) = 0
   \<and> readabilityScore (calculateEnhancedTextStats []) = Finite 0"
  using stats_without_words [of "''   ''"] stats_without_words [of "[]"] by simp


subsection \<open>The embedding score\<close>

lemma fold_cosine_replicate:
  "fold (\<lambda>(a, b) (dotProduct, norm1, norm2).
           (dotProduct + a * b, norm1 + a * a, norm2 + b * b))
     (zip v (replicate (length v) k)) (d, n1, n2) =
   (d + k * sum_list v, n1 + (\<Sum>a\<leftarrow>v. a * a), n2 + real (length v) * (k * k))"
  by (induction v arbitrary: d n1 n2) (simp_all add: algebra_simps)

text \<open>
  Against a vector of n equal positive entries the similarity does not depend on the
  entry: the two reference vectors of the source point in the same direction.
\<close>

lemma cosineSimilarity_replicate:
  assumes "0 < k"
  shows "cosineSimilarity v (replicate n k) =
         (if length v \<noteq> n \<or> (\<Sum>a\<leftarrow>v. a * a) = 0 \<or> n = 0 then 0
          else sum_list v / (sqrt (\<Sum>a\<leftarrow>v. a * a) * sqrt (real n)))"
proof (cases "length v = n")
  case False
  then show ?thesis by (simp add: cosineSimilarity_def)
next
  case True
  have k: "sqrt (real m * (k * k)) = sqrt (real m) * k" for m
    using assms by (simp add: real_sqrt_mult)
  have "cosineSimilarity v (replicate (length v) k) =
        (if (\<Sum>a\<leftarrow>v. a * a) = 0 \<or> length v = 0 then 0
         else sum_list v / (sqrt (\<Sum>a\<leftarrow>v. a * a) * sqrt (real (length v))))"
    using assms
    by (simp add: cosineSimilarity_def fold_cosine_replicate [of v k 0 0 0, simplified] k
        del: length_0_conv)
  with True show ?thesis by auto
qed

lemma reference_similarities_equal:
  "cosineSimilarity v (replicate 1536 (0.1 :: real)) =
   cosineSimilarity v (replicate 1536 (0.2 :: real))"
  by (simp add: cosineSimilarity_replicate)

text \<open>
  The source asks for a sum of similarities above zero, not just different from zero;
  with equal similarities the rounded share is 50 either way.
\<close>

lemma performEmbeddingAnalysis_fifty:
  assumes "embeddings_create openai text = Inr textEmbedding"
  shows "\<exists>result. performEmbeddingAnalysis f text openai = Inr result
           \<and> aiProbability result = 50"
proof -
  let ?s = "cosineSimilarity textEmbedding (replicate 1536 (0.2 :: real))"
  have "Math_round (?s / (?s + ?s) * 100) = 50" if "0 < ?s + ?s"
  proof -
    have "?s / (?s + ?s) * 100 = 50" using that by (simp add: field_simps)
    then show ?thesis by (simp add: Math_round_def)
  qed
  then show ?thesis
    using assms
    by (simp add: performEmbeddingAnalysis_def Let_def reference_similarities_equal)
qed

text \<open>
  C5. With simAI and simHuman the cosine similarities of the text embedding against
  the two reference vectors of 1536 entries, an embedding analysis whose remote call
  succeeds returns aiProbability = round(100 * simAI / (simAI + simHuman)) when the
  sum of the similarities is not zero and 50 otherwise, and confidence 70.
\<close>

theorem performEmbeddingAnalysis_score:
  assumes "embeddings_create openai text = Inr textEmbedding"
  shows "\<exists>result. performEmbeddingAnalysis f text openai = Inr result
     \<and> aiProbability result =
        (let simAI = cosineSimilarity textEmbedding (replicate 1536 0.1);
             simHuman = cosineSimilarity textEmbedding (replicate 1536 0.2)
         in if simAI + simHuman \<noteq> 0
            then Math_round (100 * simAI / (simAI + simHuman)) else 50)
     \<and> confidence result = 70"
proof -
  let ?s = "cosineSimilarity textEmbedding (replicate 1536 (0.2 :: real))"
  have half: "Math_round (100 * ?s / (?s + ?s)) = 50" if "?s \<noteq> 0"
  proof -
    have "100 * ?s / (?s + ?s) = 50" using that by (simp add: field_simps)
    then show ?thesis by (simp add: Math_round_def)
  qed
  show ?thesis
    using assms half
    by (simp add: performEmbeddingAnalysis_def Let_def reference_similarities_equal)
qed

theorem performEmbeddingAnalysis_score_witness:
  "\<exists>result.
     performEmbeddingAnalysis (\<lambda>x. ''50'') ''some text''
       \<lparr>embeddings_create = (\<lambda>input. Inr (replicate 1536 1)),
        chat_completions_create = (\<lambda>prompt. Inl ''unused'')\<rparr> = Inr result
     \<and> aiProbability result = 50 \<and> confidence result = 70"
proof -
  have one: "cosineSimilarity (replicate 1536 1) (replicate 1536 k) = 1" if "0 < k" for k :: real
    using that by (simp add: cosineSimilarity_replicate sum_list_replicate)
  show ?thesis
    using performEmbeddingAnalysis_score [of
        "\<lparr>embeddings_create = (\<lambda>input. Inr (replicate 1536 1)),
         chat_completions_create = (\<lambda>prompt. Inl ''unused'')\<rparr>"
        "''some text''" "replicate 1536 1" "\<lambda>x. ''50''"]
    by (simp add: one Let_def Math_round_def)
qed


subsection \<open>The combiner\<close>



text \<open>
  C4 as stated fails: the combiner clamps nothing. A completion result of (150, 120)
  with an embedding result of (50, 70) gives an aiProbability of 120 and a confidence
  of 105.
\<close>

theorem combineAnalysisResults_unclamped:
  "aiProbability (combineAnalysisResults (\<lambda>x. ''50'')
     \<lparr>aiProbability = 50, confidence = 70, factors = [], likelySource = ''human'',
      reasoning = [], model = ''text-embedding-ada-002''\<rparr>
     \<lparr>aiProbability = 150, confidence = 120, factors = [], likelySource = ''ai'',
      reasoning = [], model = ''gpt-4o''\<rparr>) = 120
   \<and> confidence (combineAnalysisResults (\<lambda>x. ''50'')
     \<lparr>aiProbability = 50, confidence = 70, factors = [], likelySource = ''human'',
      reasoning = [], model = ''text-embedding-ada-002''\<rparr>
     \<lparr>aiProbability = 150, confidence = 120, factors = [], likelySource = ''ai'',
      reasoning = [], model = ''gpt-4o''\<rparr>) = 105
   \<and> \<not> (aiProbability (combineAnalysisResults (\<lambda>x. ''50'')
     \<lparr>aiProbability = 50, confidence = 70, factors = [], likelySource = ''human'',
      reasoning = [], model = ''text-embedding-ada-002''\<rparr>
     \<lparr>aiProbability = 150, confidence = 120, factors = [], likelySource = ''ai'',
      reasoning = [], model = ''gpt-4o''\<rparr>) \<le> 100)"
  by (simp add: combineAnalysisResults_def Let_def Math_round_def)

text \<open>
  C4 (as the code has it). When the aiProbability of both results lies in [0,100], so
  does the combined aiProbability; when the confidence of both results lies in
  [0,100], so does the combined confidence.
\<close>

theorem combineAnalysisResults_in_range:
  "(0 \<le> aiProbability e \<and> aiProbability e \<le> 100 \<and>
    0 \<le> aiProbability c \<and> aiProbability c \<le> 100 \<longrightarrow>
      0 \<le> aiProbability (combineAnalysisResults f e c) \<and>
      aiProbability (combineAnalysisResults f e c) \<le> 100)
   \<and> (0 \<le> confidence e \<and> confidence e \<le> 100 \<and>
        0 \<le> confidence c \<and> confidence c \<le> 100 \<longrightarrow>
      0 \<le> confidence (combineAnalysisResults f e c) \<and>
      confidence (combineAnalysisResults f e c) \<le> 100)"
  using weighted_round_percent [of "aiProbability e" "aiProbability c"]
    weighted_round_percent [of "confidence e" "confidence c"]
  by (simp add: combineAnalysisResults_def Let_def)

theorem combineAnalysisResults_in_range_witness:
  "0 \<le> aiProbability (combineAnalysisResults (\<lambda>x. ''100'')
     \<lparr>aiProbability = 100, confidence = 70, factors = [], likelySource = ''ai'',
      reasoning = [], model = []\<rparr>
     \<lparr>aiProbability = 99.5, confidence = 0, factors = [], likelySource = ''ai'',
      reasoning = [], model = []\<rparr>)
   \<and> aiProbability (combineAnalysisResults (\<lambda>x. ''100'')
     \<lparr>aiProbability = 100, confidence = 70, factors = [], likelySource = ''ai'',
      reasoning = [], model = []\<rparr>
     \<lparr>aiProbability = 99.5, confidence = 0, factors = [], likelySource = ''ai'',
      reasoning = [], model = []\<rparr>) \<le> 100
   \<and> 0 \<le> confidence (combineAnalysisResults (\<lambda>x. ''100'')
     \<lparr>aiProbability = 100, confidence = 70, factors = [], likelySource = ''ai'',
      reasoning = [], model = []\<rparr>
     \<lparr>aiProbability = 99.5, confidence = 0, factors = [], likelySource = ''ai'',
      reasoning = [], model = []\<rparr>)
   \<and> confidence (combineAnalysisResults (\<lambda>x. ''100'')
     \<lparr>aiProbability = 100, confidence = 70, factors = [], likelySource = ''ai'',
      reasoning = [], model = []\<rparr>
     \<lparr>aiProbability = 99.5, confidence = 0, factors = [], likelySource = ''ai'',
      reasoning = [], model = []\<rparr>) \<le> 100"
  using combineAnalysisResults_in_range [of
     "\<lparr>aiProbability = 100, confidence = 70, factors = [], likelySource = ''ai'',
      reasoning = [], model = []\<rparr>"
     "\<lparr>aiProbability = 99.5, confidence = 0, factors = [], likelySource = ''ai'',
      reasoning = [], model = []\<rparr>" "\<lambda>x. ''100''"]
  by simp




subsection \<open>The interpretation\<close>

lemma caveat_not_comprehensive: "\<not> prefix shortSampleCaveat (comprehensivePrefix @ rest)"
  by (simp add: shortSampleCaveat_def comprehensivePrefix_def)

lemma getEnhancedInterpretation_parts:
  "getEnhancedInterpretation r s =
     ((if words s < 15 then shortSampleCaveat else comprehensivePrefix) @
      (if aiProbability r < 30 then humanSummary
       else if aiProbability r < 60 then mixedSummary
       else aiSummary)) @
     ((if lexicalDiversity s < 0.5 \<and> words s > 50
       then lowDiversityNote else []) @
      (if personalPronouns s = 0 \<and> words s > 30
       then noPronounsNote else []) @
      (if js_greater (readabilityScore s) 12
       then highReadabilityNote else []))"
  by (simp add: getEnhancedInterpretation_def Let_def)

text \<open>
  C9 as stated fails at an aiProbability of exactly 60: the summary is the AI-leaning
  one, not the mixed one.
\<close>

theorem getEnhancedInterpretation_at_60:
  "getEnhancedInterpretation
     \<lparr>aiProbability = 60, confidence = 80, factors = [], likelySource = ''human'',
      reasoning = [], model = ''gpt-4o''\<rparr>
     \<lparr>words = 20, sentences = 2, avgWordsPerSentence = 10, longWords = 3,
      personalPronouns = 1, readabilityScore = Finite 8, lexicalDiversity = 0.9\<rparr>
   = comprehensivePrefix @ aiSummary
   \<and> getEnhancedInterpretation
     \<lparr>aiProbability = 60, confidence = 80, factors = [], likelySource = ''human'',
      reasoning = [], model = ''gpt-4o''\<rparr>
     \<lparr>words = 20, sentences = 2, avgWordsPerSentence = 10, longWords = 3,
      personalPronouns = 1, readabilityScore = Finite 8, lexicalDiversity = 0.9\<rparr>
   \<noteq> comprehensivePrefix @ mixedSummary"
  by (simp add: getEnhancedInterpretation_def Let_def aiSummary_def mixedSummary_def)

text \<open>
  C9 (as the code has it). The interpretation starts with the length qualifier, then
  the summary: the human-leaning one for an aiProbability below 30, the mixed one from
  30 up to but not including 60, the AI-leaning one from 60 on. The qualifier is the
  short-sample caveat exactly when the text has fewer than 15 words.
\<close>

theorem getEnhancedInterpretation_thresholds:
  "prefix
     ((if words s < 15 then shortSampleCaveat else comprehensivePrefix) @
      (if aiProbability r < 30 then humanSummary
       else if aiProbability r < 60 then mixedSummary
       else aiSummary))
     (getEnhancedInterpretation r s)
   \<and> (prefix shortSampleCaveat (getEnhancedInterpretation r s) = (words s < 15))"
  unfolding getEnhancedInterpretation_parts
  by (auto simp: caveat_not_comprehensive)

theorem getEnhancedInterpretation_thresholds_witness:
  "prefix (shortSampleCaveat @ mixedSummary)
     (getEnhancedInterpretation
        \<lparr>aiProbability = 30, confidence = 80, factors = [], likelySource = ''human'',
         reasoning = [], model = ''gpt-4o''\<rparr>
        \<lparr>words = 14, sentences = 1, avgWordsPerSentence = 14, longWords = 3,
         personalPronouns = 0, readabilityScore = Finite 12.5, lexicalDiversity = 0.9\<rparr>)"
  using getEnhancedInterpretation_thresholds [of
        "\<lparr>words = 14, sentences = 1, avgWordsPerSentence = 14, longWords = 3,
         personalPronouns = 0, readabilityScore = Finite 12.5, lexicalDiversity = 0.9\<rparr>"
        "\<lparr>aiProbability = 30, confidence = 80, factors = [], likelySource = ''human'',
         reasoning = [], model = ''gpt-4o''\<rparr>"]
  by simp


subsection \<open>The batch\<close>

text \<open>The entries a list of promises leaves once the nulls are filtered out.\<close>

lemma settled_concat:
  "concat (map (\<lambda>batch. map the (filter (\<lambda>result. result \<noteq> None) (map p batch))) gs) =
   map the (filter (\<lambda>result. result \<noteq> None) (map p (concat gs)))"
  by (induction gs) simp_all

lemma batchLoop_groups:
  "batchLoop p texts i results =
   results @ concat (map (\<lambda>batch. map the (filter (\<lambda>result. result \<noteq> None) (map p batch)))
                       (batchGroups texts i))"
proof (induction p texts i results rule: batchLoop.induct)
  case (1 p texts i results)
  show ?case
  proof (cases "i < length texts")
    case True
    then show ?thesis
      using "1.IH" [OF True refl refl refl refl]
      by (subst batchLoop.simps, subst batchGroups.simps) (simp add: Let_def)
  next
    case False
    then show ?thesis
      by (subst batchLoop.simps, subst batchGroups.simps) simp
  qed
qed

lemma concat_batchGroups: "concat (batchGroups texts i) = drop i texts"
proof (induction texts i rule: batchGroups.induct)
  case (1 texts i)
  show ?case
  proof (cases "i < length texts")
    case True
    have "take 3 (drop i texts) @ drop (i + 3) texts = drop i texts"
      by (metis add.commute append_take_drop_id drop_drop)
    with True "1.IH" show ?thesis
      by (subst batchGroups.simps) simp
  next
    case False
    then show ?thesis
      by (subst batchGroups.simps) simp
  qed
qed



lemma batchPromise_None:
  "(batchPromise f n key t = None) = (trim t = [])"
  by (simp add: batchPromise_def split: sum.splits)

lemma batchPromise_Some:
  "(\<exists>y. batchPromise f n key t = Some y) = (trim t \<noteq> [])"
  using batchPromise_None [of f n key t] by auto

lemma analyzeBatch_map_filter:
  "analyzeBatchWithEnhancedOpenAI f n texts key =
   map (\<lambda>t. the (batchPromise f n key t)) (filter (\<lambda>t. trim t \<noteq> []) texts)"
proof -
  have "analyzeBatchWithEnhancedOpenAI f n texts key =
        map the (filter (\<lambda>result. result \<noteq> None) (map (batchPromise f n key) texts))"
    unfolding analyzeBatchWithEnhancedOpenAI_def batchLoop_groups settled_concat
    by (simp add: concat_batchGroups)
  also have "\<dots> = map (\<lambda>t. the (batchPromise f n key t)) (filter (\<lambda>t. trim t \<noteq> []) texts)"
    by (simp add: filter_map comp_def batchPromise_Some)
  finally show ?thesis .
qed

lemma nth_map_filter:
  assumes "k < length xs" and "P (xs ! k)"
  shows "map g (filter P xs) ! length (filter P (take k xs)) = g (xs ! k)"
proof -
  have "xs = take k xs @ xs ! k # drop (Suc k) xs"
    using assms(1) by (simp add: id_take_nth_drop)
  then have "filter P xs = filter P (take k xs) @ xs ! k # filter P (drop (Suc k) xs)"
    using assms(2) by (metis filter.simps(2) filter_append)
  then show ?thesis
    by (simp add: nth_append)
qed





text \<open>
  C7. When the analysis of a non-blank text of the batch fails with a message, the
  slot of that text holds the record (text, error = message, aiProbability = 50,
  confidence = 10, interpretation "Analysis failed"); the batch still has one entry
  per non-blank text, and the slot of every text whose own analysis succeeds holds
  that analysis.
\<close>

theorem analyzeBatch_failure_isolated:
  assumes "k < length texts" and "trim (texts ! k) \<noteq> []"
    and "analyzeTextWithEnhancedOpenAI f n (texts ! k) key = Inl message"
  shows "analyzeBatchWithEnhancedOpenAI f n texts key !
           length (filter (\<lambda>t. trim t \<noteq> []) (take k texts)) =
         Failed \<lparr>aiProbability = 50, confidence = 10,
                 interpretationText = ''Analysis failed'',
                 failedText = texts ! k, error = message\<rparr>
       \<and> length (analyzeBatchWithEnhancedOpenAI f n texts key) =
           length (filter (\<lambda>t. trim t \<noteq> []) texts)
       \<and> (\<forall>j < length texts. \<forall>analysis.
             trim (texts ! j) \<noteq> [] \<and>
             analyzeTextWithEnhancedOpenAI f n (texts ! j) key = Inr analysis \<longrightarrow>
             analyzeBatchWithEnhancedOpenAI f n texts key !
               length (filter (\<lambda>t. trim t \<noteq> []) (take j texts)) =
             Analysed (texts ! j) analysis)"
proof -
  let ?nonBlank = "\<lambda>t. trim t \<noteq> []"
  have slot: "analyzeBatchWithEnhancedOpenAI f n texts key !
                length (filter ?nonBlank (take j texts)) =
              the (batchPromise f n key (texts ! j))"
    if "j < length texts" and "trim (texts ! j) \<noteq> []" for j
    unfolding analyzeBatch_map_filter
    using nth_map_filter [of j texts ?nonBlank "\<lambda>t. the (batchPromise f n key t)"] that
    by simp
  have failed: "the (batchPromise f n key (texts ! k)) =
         Failed \<lparr>aiProbability = 50, confidence = 10,
                 interpretationText = ''Analysis failed'',
                 failedText = texts ! k, error = message\<rparr>"
    using assms(2,3) by (simp add: batchPromise_def)
  have sibling: "the (batchPromise f n key (texts ! j)) = Analysed (texts ! j) analysis"
    if "trim (texts ! j) \<noteq> []"
      and "analyzeTextWithEnhancedOpenAI f n (texts ! j) key = Inr analysis" for j analysis
    using that by (simp add: batchPromise_def)
  have len: "length (analyzeBatchWithEnhancedOpenAI f n texts key) =
             length (filter ?nonBlank texts)"
    by (simp add: analyzeBatch_map_filter)
  show ?thesis
    using slot [OF assms(1,2)] failed len slot sibling by simp
qed

theorem analyzeBatch_failure_isolated_witness:
  "(let newOpenAI = (\<lambda>key.
          \<lparr>embeddings_create = (\<lambda>input. Inl ''offline''),
           chat_completions_create = (\<lambda>prompt.
             if CHR ''Z'' \<in> set prompt then Inl ''rate limit''
             else Inr \<lparr>aiProbability = 20, confidence = 90, factors = [''informal''],
                       likelySource = ''human'', reasoning = ''Casual.'', model = []\<rparr>)\<rparr>);
        results = analyzeBatchWithEnhancedOpenAI (\<lambda>x. ''50'') newOpenAI
                    [''hello there'', ''  '', ''Zzz''] ''sk-1''
    in results ! 1 =
         Failed \<lparr>aiProbability = 50, confidence = 10,
                 interpretationText = ''Analysis failed'', failedText = ''Zzz'',
                 error = ''Failed to analyze text: Failed to perform completion analysis: rate limit''\<rparr>
       \<and> length results = 2
       \<and> (\<exists>analysis. results ! 0 = Analysed ''hello there'' analysis))"
proof -
  let ?n = "\<lambda>key :: string.
          \<lparr>embeddings_create = (\<lambda>input :: string. Inl ''offline'' :: string + real list),
           chat_completions_create = (\<lambda>prompt.
             if CHR ''Z'' \<in> set prompt then Inl ''rate limit''
             else Inr \<lparr>aiProbability = 20, confidence = 90, factors = [''informal''],
                       likelySource = ''human'', reasoning = ''Casual.'', model = []\<rparr>)\<rparr>"
  let ?texts = "[''hello there'', ''  '', ''Zzz'']"
  have p1: "preprocessText ''Zzz'' = ''Zzz''"
    and p2: "preprocessText ''hello there'' = ''hello there''"
    by (simp_all add: preprocessText_def trim_def rx_defs char_defs)
  have w1: "words (calculateEnhancedTextStats ''Zzz'') = 1"
    and w2: "words (calculateEnhancedTextStats ''hello there'') = 2"
    by (simp_all add: calculateEnhancedTextStats_def Let_def)
  have z1: "CHR ''Z'' \<in> set (completionPrompt ''Zzz'')"
    and z2: "CHR ''Z'' \<notin> set (completionPrompt ''hello there'')"
    by (simp_all add: completionPrompt_def promptHead_def promptTail_def dq_def nl_def)
  have bad: "analyzeTextWithEnhancedOpenAI (\<lambda>x. ''50'') ?n (?texts ! 2) ''sk-1'' =
        Inl ''Failed to analyze text: Failed to perform completion analysis: rate limit''"
    by (simp add: analyzeTextWithEnhancedOpenAI_def Let_def p1 w1 z1
        performCompletionAnalysis_def)
  have good: "\<exists>analysis. analyzeTextWithEnhancedOpenAI (\<lambda>x. ''50'') ?n (?texts ! 0) ''sk-1'' =
        Inr analysis"
    by (simp add: analyzeTextWithEnhancedOpenAI_def Let_def p2 w2 z2
        performCompletionAnalysis_def)
  have blank: "trim ''  '' = []" and nonBlank: "trim ''Zzz'' \<noteq> []" "trim ''hello there'' \<noteq> []"
    by (simp_all add: trim_def isSpace_def)
  have k: "2 < length ?texts" "trim (?texts ! 2) \<noteq> []"
    using nonBlank by simp_all
  from good obtain analysis where
    a: "analyzeTextWithEnhancedOpenAI (\<lambda>x. ''50'') ?n (?texts ! 0) ''sk-1'' = Inr analysis" ..
  have "analyzeBatchWithEnhancedOpenAI (\<lambda>x. ''50'') ?n ?texts ''sk-1'' ! 0 =
        Analysed ''hello there'' analysis"
    using analyzeBatch_failure_isolated [OF k bad, THEN conjunct2, THEN conjunct2,
        rule_format, of 0 analysis] a nonBlank
    by simp
  then show ?thesis
    unfolding Let_def
    using analyzeBatch_failure_isolated [OF k bad] blank nonBlank
    by (auto simp: numeral_2_eq_2)
qed


end
